theory Spec2Isabelle
  imports Complex_Main "HOL-Library.Stream"
begin

section \<open>The Memberful OAuth example servers (src/index.js and its sibling copy)\<close>

text \<open>
  Both source files are the same Express program up to comments, the path of the
  sign-in route and one log line. The embedding below follows \<^verbatim>\<open>src/index.js\<close>:
  the configuration constants, the helper \<^verbatim>\<open>generateRandomString\<close>, the global
  variable \<^verbatim>\<open>state\<close> and the three route handlers. The HTTP client (axios), the web
  framework (Express) and \<^verbatim>\<open>Math.random\<close> are the environment: each handler takes
  what they deliver as an argument and returns what it hands to them.
  Writes to the console are not part of the model.
\<close>

subsection \<open>JavaScript values\<close>

text \<open>
  The values that travel through the handlers: query parameters, JSON payloads and the
  properties of a caught error. Strings are lists of 8-bit characters. A number is kept
  as the text that JavaScript writes for it (\<^verbatim>\<open>899\<close>, \<^verbatim>\<open>0.5\<close>, \<^verbatim>\<open>1e+21\<close>,
  \<^verbatim>\<open>NaN\<close>): the handlers do nothing with a number but write it. An object is the
  list of its own properties, each name once, in enumeration order.
\<close>

datatype jsval =
    JUndefined
  | JNull
  | JBool bool
  | JNum string
  | JStr string
  | JArr "jsval list"
  | JObj "(string \<times> jsval) list"

definition newline :: string where
  "newline = [CHR 0x0A]"

fun join :: "string \<Rightarrow> string list \<Rightarrow> string" where
  "join sep [] = []"
| "join sep [x] = x"
| "join sep (x # y # ys) = x @ sep @ join sep (y # ys)"

text \<open>
  Decimal digits of a natural number, most significant first, and the text of an
  integer; used for the status code of a response.
\<close>

fun digits :: "nat \<Rightarrow> string" where
  "digits n =
     (if n < 10 then [''0123456789'' ! n]
      else digits (n div 10) @ [''0123456789'' ! (n mod 10)])"

declare digits.simps [simp del]

definition number_text :: "int \<Rightarrow> string" where
  "number_text n = (if n < 0 then ''-'' @ digits (nat (- n)) else digits (nat n))"

text \<open>
  \<^verbatim>\<open>`${v}`\<close>: the string a template literal inserts for a value, or \<open>None\<close> when
  the conversion throws a TypeError. An object is converted by the \<^verbatim>\<open>toString\<close> it
  inherits, unless it has a property of that name of its own: a JSON value is not
  callable, the inherited \<^verbatim>\<open>valueOf\<close> returns the object itself, and the conversion
  throws. An array joins its elements with commas, \<^verbatim>\<open>null\<close> and \<^verbatim>\<open>undefined\<close>
  elements giving the empty string, and throws when an element does.
\<close>

fun toString :: "jsval \<Rightarrow> string option"
  and toString_elems :: "jsval list \<Rightarrow> string list option" where
  "toString JUndefined = Some ''undefined''"
| "toString JNull = Some ''null''"
| "toString (JBool b) = Some (if b then ''true'' else ''false'')"
| "toString (JNum t) = Some t"
| "toString (JStr s) = Some s"
| "toString (JArr xs) = map_option (join '','') (toString_elems xs)"
| "toString (JObj ps) =
     (if ''toString'' \<in> set (map fst ps) then None else Some ''[object Object]'')"
| "toString_elems [] = Some []"
| "toString_elems (x # xs) =
     (case (if x = JUndefined \<or> x = JNull then Some [] else toString x) of
        None \<Rightarrow> None
      | Some t \<Rightarrow> map_option ((#) t) (toString_elems xs))"

text \<open>
  \<^verbatim>\<open>const { access_token, refresh_token } = v\<close> reads properties of \<open>v\<close>. Reading from
  \<^verbatim>\<open>null\<close> or \<^verbatim>\<open>undefined\<close> throws a TypeError (\<open>None\<close>); a primitive or an array
  has no property of such a name; an object gives its own property, or \<^verbatim>\<open>undefined\<close>.
  (The names read in this program are none that every object inherits.)
\<close>

definition own_property :: "(string \<times> jsval) list \<Rightarrow> string \<Rightarrow> jsval" where
  "own_property ps k = (case map_of ps k of None \<Rightarrow> JUndefined | Some v \<Rightarrow> v)"

fun property :: "jsval \<Rightarrow> string \<Rightarrow> jsval option" where
  "property JUndefined k = None"
| "property JNull k = None"
| "property (JObj ps) k = Some (own_property ps k)"
| "property v k = Some JUndefined"

subsection \<open>\<^verbatim>\<open>JSON.stringify(value, null, 2)\<close>\<close>

definition hex4 :: "nat \<Rightarrow> string" where
  "hex4 n = map (\<lambda>d. ''0123456789abcdef'' ! d)
     [n div 4096 mod 16, n div 256 mod 16, n div 16 mod 16, n mod 16]"

definition quote_char :: "char \<Rightarrow> string" where
  \<open>quote_char c =
     (if c = CHR ''"'' then [CHR 0x5C, CHR ''"'']
      else if c = CHR 0x5C then [CHR 0x5C, CHR 0x5C]
      else if c = CHR 0x08 then [CHR 0x5C, CHR ''b'']
      else if c = CHR 0x0C then [CHR 0x5C, CHR ''f'']
      else if c = CHR 0x0A then [CHR 0x5C, CHR ''n'']
      else if c = CHR 0x0D then [CHR 0x5C, CHR ''r'']
      else if c = CHR 0x09 then [CHR 0x5C, CHR ''t'']
      else if (of_char c :: nat) < 32 then [CHR 0x5C, CHR ''u''] @ hex4 (of_char c)
      else [c])\<close>

definition quote :: "string \<Rightarrow> string" where
  \<open>quote s = ''"'' @ concat (map quote_char s) @ ''"''\<close>

text \<open>
  The first argument is the current indentation; every nesting level adds two spaces.
  \<open>None\<close> is the result \<^verbatim>\<open>undefined\<close>: an array writes it as \<^verbatim>\<open>null\<close>, an object
  leaves the property out. A number that is not finite is written \<^verbatim>\<open>null\<close>.
\<close>

fun stringify :: "string \<Rightarrow> jsval \<Rightarrow> string option"
  and stringify_elems :: "string \<Rightarrow> jsval list \<Rightarrow> string list"
  and stringify_props :: "string \<Rightarrow> (string \<times> jsval) list \<Rightarrow> string list" where
  "stringify ind JUndefined = None"
| "stringify ind JNull = Some ''null''"
| "stringify ind (JBool b) = Some (if b then ''true'' else ''false'')"
| "stringify ind (JNum t) =
     Some (if t = ''NaN'' \<or> t = ''Infinity'' \<or> t = ''-Infinity'' then ''null'' else t)"
| "stringify ind (JStr s) = Some (quote s)"
| "stringify ind (JArr xs) =
     (let partial = stringify_elems (ind @ ''  '') xs
      in if partial = [] then Some ''[]''
         else Some (''['' @ newline @ ind @ ''  ''
                    @ join ('','' @ newline @ ind @ ''  '') partial
                    @ newline @ ind @ '']''))"
| "stringify ind (JObj ps) =
     (let partial = stringify_props (ind @ ''  '') ps
      in if partial = [] then Some ''{}''
         else Some (''{'' @ newline @ ind @ ''  ''
                    @ join ('','' @ newline @ ind @ ''  '') partial
                    @ newline @ ind @ ''}''))"
| "stringify_elems ind [] = []"
| "stringify_elems ind (x # xs) =
     (case stringify ind x of None \<Rightarrow> ''null'' | Some t \<Rightarrow> t) # stringify_elems ind xs"
| "stringify_props ind [] = []"
| "stringify_props ind (p # ps) =
     (case stringify ind (snd p) of
        None \<Rightarrow> stringify_props ind ps
      | Some t \<Rightarrow> (quote (fst p) @ '': '' @ t) # stringify_props ind ps)"

text \<open>\<^verbatim>\<open>`${JSON.stringify(v, null, 2)}`\<close>, as the results page inserts a payload.\<close>

definition JSON_stringify :: "jsval \<Rightarrow> string" where
  "JSON_stringify v = (case stringify [] v of None \<Rightarrow> ''undefined'' | Some t \<Rightarrow> t)"

subsection \<open>Configuration\<close>

record config =
  defaultPort :: nat
  beginOAuthFlowURL :: string
  callbackURL :: string
  memberfulURL :: string
  clientId :: string
  clientSecret :: string

text \<open>The constants as \<^verbatim>\<open>src/index.js\<close> ships them; the last three are to be filled in.\<close>

definition index_js :: config where
  "index_js = \<lparr> defaultPort = 3000, beginOAuthFlowURL = ''/login'',
     callbackURL = ''/callback'', memberfulURL = ''INSERT_YOUR_MEMBERFUL_URL_HERE'',
     clientId = ''INSERT_YOUR_OAUTH_IDENTIFIER_HERE'',
     clientSecret = ''INSERT_YOUR_OAUTH_SECRET_HERE'' \<rparr>"

text \<open>The sibling copy differs in the path of the sign-in route.\<close>

definition sibling_js :: config where
  "sibling_js = index_js \<lparr> beginOAuthFlowURL := ''/begin-oauth-flow'' \<rparr>"

subsection \<open>\<^verbatim>\<open>generateRandomString\<close>\<close>

definition possible :: string where
  "possible = ''ABCDEFGHIJKLMNOPQRSTUVWXYZabcdefghijklmnopqrstuvwxyz0123456789''"

text \<open>\<^verbatim>\<open>s.charAt(i)\<close>: the character at index \<open>i\<close>, the empty string out of range.\<close>

definition charAt :: "string \<Rightarrow> int \<Rightarrow> string" where
  "charAt s i = (if 0 \<le> i \<and> i < int (length s) then [s ! nat i] else [])"

text \<open>
  Numbers are doubles. The pair \<open>(m, k)\<close> stands for the number \<open>m / 2 ^ k\<close>; it is a
  double in \<open>[0, 1)\<close>, as the language promises of \<^verbatim>\<open>Math.random()\<close>, when \<open>m\<close> fits
  the 53 bits of a significand, \<open>m < 2 ^ k\<close>, and \<open>k\<close> is at most 1074, the scale of the
  smallest double. Every double in \<open>[0, 1)\<close> is such a pair.
\<close>

type_synonym dyadic = "nat \<times> nat"

definition unit_double :: "dyadic \<Rightarrow> bool" where
  "unit_double d = (fst d < 2 ^ 53 \<and> fst d < 2 ^ snd d \<and> snd d \<le> 1074)"

text \<open>The number of binary digits of a natural number.\<close>

fun bits :: "nat \<Rightarrow> nat" where
  "bits n = (if n = 0 then 0 else Suc (bits (n div 2)))"

declare bits.simps [simp del]

text \<open>
  Rounding to a significand of 53 bits, to the nearest and on a tie to the even one, as
  every arithmetic operation on doubles rounds its exact result.
\<close>

definition round53 :: "nat \<Rightarrow> nat" where
  "round53 n =
     (if n < 2 ^ 53 then n
      else let s = bits n - 53; q = n div 2 ^ s; r = n mod 2 ^ s
           in (if 2 ^ s < 2 * r \<or> (2 * r = 2 ^ s \<and> odd q) then q + 1 else q) * 2 ^ s)"

text \<open>
  \<^verbatim>\<open>d * n\<close> for a double \<open>d\<close> in \<open>[0, 1)\<close> and a count \<open>n\<close>: the exact product,
  rounded. (The result is at least \<open>2 ^ 53 / 2 ^ 1074\<close> whenever rounding applies, so no
  underflow interferes.) \<^verbatim>\<open>Math.floor\<close> is exact.
\<close>

definition times_count :: "dyadic \<Rightarrow> nat \<Rightarrow> dyadic" where
  "times_count d n = (round53 (fst d * n), snd d)"

definition Math_floor :: "dyadic \<Rightarrow> int" where
  "Math_floor d = int (fst d div 2 ^ snd d)"

text \<open>\<^verbatim>\<open>Math.random()\<close> is a stream of draws, the head being the next one.\<close>

type_synonym random_source = "dyadic stream"

definition unit_draws :: "dyadic list \<Rightarrow> bool" where
  "unit_draws ds = list_all unit_double ds"

text \<open>
  The loop \<^verbatim>\<open>for (let i = 0; i < length; i++) text += possible.charAt(...)\<close>, with the
  counter, the text so far and the random source as its state. The counter is a natural
  number and a string has no largest length.
\<close>

function generateRandomString_loop ::
    "nat \<Rightarrow> nat \<Rightarrow> string \<Rightarrow> random_source \<Rightarrow> string \<times> random_source" where
  "generateRandomString_loop len i text rnd =
     (if i < len
      then generateRandomString_loop len (Suc i)
             (text @ charAt possible (Math_floor (times_count (shd rnd) (length possible))))
             (stl rnd)
      else (text, rnd))"
  by pat_completeness auto
termination
  by (relation "measure (\<lambda>(len, i, text, rnd). len - i)") auto

declare generateRandomString_loop.simps [simp del]

definition generateRandomString :: "nat \<Rightarrow> random_source \<Rightarrow> string \<times> random_source" where
  "generateRandomString len rnd = generateRandomString_loop len 0 [] rnd"

subsection \<open>The process state and what a handler does\<close>

text \<open>
  The global \<^verbatim>\<open>let state = ''\<close> and the generator behind \<^verbatim>\<open>Math.random\<close> are all
  that outlives a request.
\<close>

record server =
  state :: string
  math_random :: random_source

definition startup :: "random_source \<Rightarrow> server" where
  "startup rnd = \<lparr> state = [], math_random = rnd \<rparr>"

text \<open>
  An outbound call is \<^verbatim>\<open>axios.post(url, body)\<close> or \<^verbatim>\<open>axios.get(url, { headers })\<close>.
  The provider behind axios answers a call with the \<^verbatim>\<open>data\<close> of its response
  (\<open>Inr\<close>), or the promise is rejected with an error object, given by its own
  properties (\<open>Inl\<close>).
\<close>

datatype outbound =
    Post string "(string \<times> jsval) list"
  | Get string "(string \<times> string) list"

type_synonym provider = "outbound \<Rightarrow> (string \<times> jsval) list + jsval"

text \<open>
  What the \<^verbatim>\<open>try\<close> block can throw: a rejection of axios, or the TypeError of
  destructuring \<^verbatim>\<open>null\<close> or \<^verbatim>\<open>undefined\<close> and of a template literal that
  cannot convert its value. \<^verbatim>\<open>error.data\<close> reads the property
  \<^verbatim>\<open>data\<close> of what was caught; a TypeError has none.
\<close>

datatype thrown = Rejected "(string \<times> jsval) list" | TypeError

fun error_data :: "thrown \<Rightarrow> jsval" where
  "error_data (Rejected ps) = own_property ps ''data''"
| "error_data TypeError = JUndefined"

text \<open>A handler answers with \<^verbatim>\<open>res.send(body)\<close> or \<^verbatim>\<open>res.redirect(url)\<close>.\<close>

datatype response = Send jsval | Redirect string

record outcome =
  reply :: response
  calls :: "outbound list"

text \<open>\<^verbatim>\<open>req.query\<close>; a parameter that is absent reads as \<^verbatim>\<open>undefined\<close>.\<close>

type_synonym query = "string \<rightharpoonup> jsval"

definition query_param :: "query \<Rightarrow> string \<Rightarrow> jsval" where
  "query_param q k = (case q k of None \<Rightarrow> JUndefined | Some v \<Rightarrow> v)"

subsection \<open>The lobby route\<close>

definition lobby_page :: "config \<Rightarrow> string" where
  \<open>lobby_page cfg = join newline
     [[],
      ''  <html><head></head><body>'',
      ''    <h1>Memberful OAuth SSA Example - NodeJS + Express (No auth library)</h1>'',
      ''    <p><a href="'' @ beginOAuthFlowURL cfg @ ''">Begin OAuth Flow</a></p>'',
      ''  </body></html>'',
      ''  '']\<close>

definition lobby :: "config \<Rightarrow> server \<Rightarrow> outcome \<times> server" where
  "lobby cfg srv = (\<lparr> reply = Send (JStr (lobby_page cfg)), calls = [] \<rparr>, srv)"

subsection \<open>The route that begins the flow\<close>

definition beginOAuthFlow :: "config \<Rightarrow> server \<Rightarrow> outcome \<times> server" where
  "beginOAuthFlow cfg srv =
     (let (token, rnd) = generateRandomString 16 (math_random srv);
          srv' = srv \<lparr> state := token, math_random := rnd \<rparr>;
          responseType = ''code''
      in (\<lparr> reply = Redirect (memberfulURL cfg @ ''/oauth/?response_type='' @ responseType
                 @ ''&client_id='' @ clientId cfg @ ''&state='' @ state srv'),
            calls = [] \<rparr>, srv'))"

subsection \<open>The callback route\<close>

definition memberQuery :: string where
  "memberQuery = join newline
     [[],
      ''        {'',
      ''          currentMember {'',
      ''            id'',
      ''            email'',
      ''            fullName'',
      ''            subscriptions {'',
      ''              active'',
      ''              expiresAt'',
      ''              plan {'',
      ''                id'',
      ''                name'',
      ''              }'',
      ''            }'',
      ''          }'',
      ''        }'',
      ''        '']"

definition results_page :: "jsval \<Rightarrow> jsval \<Rightarrow> jsval \<Rightarrow> string" where
  "results_page accessTokenData memberData refreshTokenData = join newline
     [[],
      ''      <html><head></head><body>'',
      ''        <h2>Results from our access token request:</h2>'',
      ''        <pre>'' @ JSON_stringify accessTokenData @ ''</pre>'',
      ''        <h2>Results from our member data request:</h2>'',
      ''        <pre>'' @ JSON_stringify memberData @ ''</pre>'',
      ''        <h2>Results from our refresh token request:</h2>'',
      ''        <pre>'' @ JSON_stringify refreshTokenData @ ''</pre>'',
      ''      </body></html>'',
      ''      '']"

text \<open>
  The \<^verbatim>\<open>try\<close> block: the three awaited calls, one after the other. The result is the
  page to send, or what was thrown, together with the calls made up to that point.
\<close>

definition callback_try ::
    "config \<Rightarrow> provider \<Rightarrow> jsval \<Rightarrow> (thrown + string) \<times> outbound list" where
  "callback_try cfg axios code =
     (let accessTokenRequest = Post (memberfulURL cfg @ ''/oauth/token'')
            [(''grant_type'', JStr ''authorization_code''),
             (''code'', code),
             (''client_id'', JStr (clientId cfg)),
             (''client_secret'', JStr (clientSecret cfg))]
      in case axios accessTokenRequest of
           Inl error \<Rightarrow> (Inl (Rejected error), [accessTokenRequest])
         | Inr accessTokenData \<Rightarrow>
      (case (property accessTokenData ''access_token'',
             property accessTokenData ''refresh_token'') of
           (Some access_token, Some refresh_token) \<Rightarrow>
      (case toString access_token of
           None \<Rightarrow> (Inl TypeError, [accessTokenRequest])
         | Some bearer \<Rightarrow>
      (let memberDataRequest =
             Get (memberfulURL cfg @ ''/api/graphql/member?query='' @ memberQuery)
               [(''Authorization'', ''Bearer '' @ bearer)]
       in case axios memberDataRequest of
            Inl error \<Rightarrow> (Inl (Rejected error), [accessTokenRequest, memberDataRequest])
          | Inr memberData \<Rightarrow>
      (let refreshTokenRequest = Post (memberfulURL cfg @ ''/oauth/token'')
             [(''grant_type'', JStr ''refresh_token''),
              (''refresh_token'', refresh_token),
              (''client_id'', JStr (clientId cfg)),
              (''client_secret'', JStr (clientSecret cfg))]
       in case axios refreshTokenRequest of
            Inl error \<Rightarrow>
              (Inl (Rejected error),
               [accessTokenRequest, memberDataRequest, refreshTokenRequest])
          | Inr refreshTokenData \<Rightarrow>
              (Inr (results_page accessTokenData memberData refreshTokenData),
               [accessTokenRequest, memberDataRequest, refreshTokenRequest]))))
         | _ \<Rightarrow> (Inl TypeError, [accessTokenRequest])))"

text \<open>
  The handler: the comparison \<^verbatim>\<open>state !== returnedState\<close> (strict, so only a string
  with the stored characters passes), then the \<^verbatim>\<open>try\<close> block and its \<^verbatim>\<open>catch\<close>.
\<close>

definition callback :: "config \<Rightarrow> provider \<Rightarrow> query \<Rightarrow> server \<Rightarrow> outcome \<times> server" where
  "callback cfg axios q srv =
     (let code = query_param q ''code'';
          returnedState = query_param q ''state''
      in if JStr (state srv) \<noteq> returnedState
         then (\<lparr> reply = Send (JStr ''State doesn't match''), calls = [] \<rparr>, srv)
         else (case callback_try cfg axios code of
                 (Inr page, made) \<Rightarrow> (\<lparr> reply = Send (JStr page), calls = made \<rparr>, srv)
               | (Inl error, made) \<Rightarrow>
                   (\<lparr> reply = Send (error_data error), calls = made \<rparr>, srv)))"

subsection \<open>Requests in sequence\<close>

datatype request = Lobby | BeginOAuthFlow | Callback query

fun handle :: "config \<Rightarrow> provider \<Rightarrow> request \<Rightarrow> server \<Rightarrow> outcome \<times> server" where
  "handle cfg axios Lobby srv = lobby cfg srv"
| "handle cfg axios BeginOAuthFlow srv = beginOAuthFlow cfg srv"
| "handle cfg axios (Callback q) srv = callback cfg axios q srv"

text \<open>
  The server after a list of requests, each with the provider's behaviour while it is
  handled, and the tokens that the sign-in route generated on the way, oldest first.
\<close>

fun serve :: "config \<Rightarrow> (provider \<times> request) list \<Rightarrow> server \<Rightarrow> server" where
  "serve cfg [] srv = srv"
| "serve cfg (pr # rest) srv = serve cfg rest (snd (handle cfg (fst pr) (snd pr) srv))"

fun issued :: "config \<Rightarrow> (provider \<times> request) list \<Rightarrow> server \<Rightarrow> string list" where
  "issued cfg [] srv = []"
| "issued cfg (pr # rest) srv =
     (let srv' = snd (handle cfg (fst pr) (snd pr) srv)
      in (case snd pr of BeginOAuthFlow \<Rightarrow> [state srv'] | _ \<Rightarrow> [])
         @ issued cfg rest srv')"

subsection \<open>The error of a refused call\<close>

text \<open>
  What axios rejects with when the provider answers with a status outside 2xx: an
  AxiosError. Its own properties are \<^verbatim>\<open>message\<close>, \<^verbatim>\<open>name\<close>, \<^verbatim>\<open>code\<close>,
  \<^verbatim>\<open>config\<close>, \<^verbatim>\<open>request\<close> and \<^verbatim>\<open>response\<close>; the body that the provider sent is
  \<^verbatim>\<open>response.data\<close>. The model keeps the message, the name and the response with its
  status and body.
\<close>

definition axios_error :: "int \<Rightarrow> jsval \<Rightarrow> (string \<times> jsval) list" where
  "axios_error status body =
     [(''message'', JStr (''Request failed with status code '' @ number_text status)),
      (''name'', JStr ''AxiosError''),
      (''response'', JObj [(''status'', JNum (number_text status)), (''data'', body)])]"

section \<open>Properties\<close>

subsection \<open>Rounding the product\<close>

text \<open>
  A number below \<open>2 ^ b\<close> has at most \<open>b\<close> binary digits, so the product of a significand
  and 62 loses at most six of them, and rounding moves it by at most 32.
\<close>

lemma bits_le: "n < 2 ^ b \<Longrightarrow> bits n \<le> b"
proof (induction b arbitrary: n)
  case 0
  then show ?case by (simp add: bits.simps)
next
  case (Suc b)
  then have "n div 2 < 2 ^ b" by simp
  from Suc.IH[OF this] show ?case by (subst bits.simps) simp
qed

lemma round53_near:
  assumes "n < 2 ^ 59"
  shows "round53 n \<le> n + 32"
proof (cases "n < 2 ^ 53")
  case True
  then show ?thesis by (simp add: round53_def)
next
  case False
  define s where "s = bits n - 53"
  define P :: nat where "P = 2 ^ s"
  define q where "q = n div P"
  define r where "r = n mod P"
  have "bits n \<le> 59" using assms by (rule bits_le)
  then have "s \<le> 6" by (simp add: s_def)
  then have "P \<le> 2 ^ 6" unfolding P_def by (rule power_increasing) simp
  then have P: "P \<le> 64" by simp
  have n: "n = q * P + r" by (simp add: q_def r_def)
  have R: "round53 n = (if P < 2 * r \<or> (2 * r = P \<and> odd q) then q + 1 else q) * P"
    using False by (simp add: round53_def Let_def s_def P_def q_def r_def)
  show ?thesis
  proof (cases "P < 2 * r \<or> (2 * r = P \<and> odd q)")
    case True
    then have "P \<le> 2 * r" by auto
    moreover have "round53 n = q * P + P" using True R by simp
    ultimately show ?thesis using n P by linarith
  next
    case False
    with R have "round53 n = q * P" by (simp only: if_False)
    then show ?thesis using n by linarith
  qed
qed

text \<open>
  The rounded product stays below 62: the exact product is at least 62 units of the
  scale below it, and rounding adds at most 32. So \<^verbatim>\<open>Math.floor\<close> gives an index of
  the alphabet, and \<^verbatim>\<open>charAt\<close> one character.
\<close>

lemma index_below:
  assumes "unit_double d"
  shows "0 \<le> Math_floor (times_count d (length possible))"
    and "Math_floor (times_count d (length possible)) < int (length possible)"
proof -
  obtain m k where d: "d = (m, k)" by (cases d)
  have m: "m < 2 ^ 53" "m < 2 ^ k" using assms by (simp_all add: unit_double_def d)
  have len: "length possible = 62" by (simp add: possible_def)
  have "m * 62 < 2 ^ 59" using m(1) by simp
  from round53_near[OF this] have "round53 (m * 62) \<le> m * 62 + 32" .
  moreover have "m * 62 + 62 \<le> 62 * 2 ^ k" using m(2) by simp
  ultimately have "round53 (m * 62) < 62 * 2 ^ k" by linarith
  then have "round53 (m * 62) div 2 ^ k < 62" by (rule less_mult_imp_div_less)
  then show "Math_floor (times_count d (length possible)) < int (length possible)"
    by (simp add: Math_floor_def times_count_def d len)
  show "0 \<le> Math_floor (times_count d (length possible))"
    by (simp add: Math_floor_def)
qed

lemma charAt_unit_draw:
  assumes "unit_double d"
  shows "\<exists>c \<in> set possible. charAt possible (Math_floor (times_count d (length possible))) = [c]"
proof -
  let ?i = "Math_floor (times_count d (length possible))"
  from index_below[OF assms] have lo: "0 \<le> ?i" and hi: "?i < int (length possible)" .
  then have "nat ?i < length possible" by linarith
  then have "possible ! nat ?i \<in> set possible" by (rule nth_mem)
  with lo hi show ?thesis unfolding charAt_def by auto
qed

text \<open>
  Rounding is not idle. The draw \<open>1162219258676257 / 2 ^ 51\<close> times 62 is
  \<open>32 - 2 ^ -50\<close>, which no double holds; the product rounds to 32 and the character is
  \<^verbatim>\<open>g\<close>, where the exact product would select \<^verbatim>\<open>f\<close>.
\<close>

lemma rounding_example:
  "unit_double (1162219258676257, 51)
   \<and> times_count (1162219258676257, 51) 62 = (2 ^ 56, 51)
   \<and> fst (generateRandomString 1 (sconst (1162219258676257, 51))) = ''g''"
  by (simp add: unit_double_def times_count_def round53_def bits.simps Let_def
      generateRandomString_def generateRandomString_loop.simps charAt_def possible_def Math_floor_def)

subsection \<open>The loop of \<^verbatim>\<open>generateRandomString\<close>\<close>

text \<open>
  The loop appends one character per draw: started at counter \<open>i\<close> it consumes the next
  \<open>len - i\<close> draws.
\<close>

lemma generateRandomString_loop_draws:
  "generateRandomString_loop len i t rnd =
     (t @ concat (map (\<lambda>d. charAt possible (Math_floor (times_count d (length possible))))
                    (stake (len - i) rnd)),
      sdrop (len - i) rnd)"
proof (induction len i t rnd rule: generateRandomString_loop.induct)
  case (1 len i t rnd)
  show ?case
  proof (cases "i < len")
    case True
    then have d: "len - i = Suc (len - Suc i)" by simp
    show ?thesis
      using True "1.IH"[OF True]
      by (subst generateRandomString_loop.simps) (simp add: d)
  next
    case False
    then show ?thesis by (subst generateRandomString_loop.simps) simp
  qed
qed

lemma picked_chars:
  "unit_draws ds \<Longrightarrow>
   length (concat (map (\<lambda>d. charAt possible (Math_floor (times_count d (length possible)))) ds))
     = length ds
   \<and> set (concat (map (\<lambda>d. charAt possible (Math_floor (times_count d (length possible)))) ds))
     \<subseteq> set possible"
proof (induction ds)
  case Nil
  then show ?case by simp
next
  case (Cons d ds)
  then have d: "unit_double d" and ds: "unit_draws ds" by (simp_all add: unit_draws_def)
  from charAt_unit_draw[OF d] obtain c where "c \<in> set possible"
    "charAt possible (Math_floor (times_count d (length possible))) = [c]" by blast
  with Cons.IH[OF ds] show ?case by simp
qed

subsection \<open>Template literals\<close>

lemma toString_own_toString:
  "toString (JObj [(''toString'', JNum ''1'')]) = None"
  "toString (JArr [JStr ''a'', JObj [(''toString'', JNull)]]) = None"
  "toString (JArr [JNum ''1e+21'', JNull, JArr [JBool True], JObj []])
     = Some ''1e+21,,true,[object Object]''"
  by simp_all

subsection \<open>The callback handler\<close>

text \<open>The handler never assigns to \<^verbatim>\<open>state\<close> and never draws a random number.\<close>

lemma callback_server: "snd (callback cfg axios q srv) = srv"
  by (simp add: callback_def Let_def split: prod.splits sum.splits)

lemma callback_mismatch:
  "query_param q ''state'' \<noteq> JStr (state srv) \<Longrightarrow>
   fst (callback cfg axios q srv) = \<lparr> reply = Send (JStr ''State doesn't match''), calls = [] \<rparr>"
  by (auto simp add: callback_def Let_def)

text \<open>Whatever the provider answers, the \<^verbatim>\<open>try\<close> block starts with the token exchange.\<close>

lemma callback_try_first:
  "\<exists>rest. snd (callback_try cfg axios code) =
     Post (memberfulURL cfg @ ''/oauth/token'')
       [(''grant_type'', JStr ''authorization_code''), (''code'', code),
        (''client_id'', JStr (clientId cfg)), (''client_secret'', JStr (clientSecret cfg))] # rest"
  by (simp add: callback_try_def Let_def split: sum.splits option.splits)

lemma callback_match:
  "query_param q ''state'' = JStr (state srv) \<Longrightarrow>
   fst (callback cfg axios q srv) =
     (case callback_try cfg axios (query_param q ''code'') of
        (Inr page, made) \<Rightarrow> \<lparr> reply = Send (JStr page), calls = made \<rparr>
      | (Inl error, made) \<Rightarrow> \<lparr> reply = Send (error_data error), calls = made \<rparr>)"
  by (simp add: callback_def Let_def split: prod.splits sum.splits)

lemma callback_begins:
  assumes "query_param q ''state'' = JStr (state srv)"
  shows "\<exists>rest. calls (fst (callback cfg axios q srv)) =
     Post (memberfulURL cfg @ ''/oauth/token'')
       [(''grant_type'', JStr ''authorization_code''), (''code'', query_param q ''code''),
        (''client_id'', JStr (clientId cfg)), (''client_secret'', JStr (clientSecret cfg))] # rest"
proof -
  obtain res made where r: "callback_try cfg axios (query_param q ''code'') = (res, made)"
    by (cases "callback_try cfg axios (query_param q ''code'')")
  with callback_try_first[of cfg axios "query_param q ''code''"] obtain rest where
    "made = Post (memberfulURL cfg @ ''/oauth/token'')
       [(''grant_type'', JStr ''authorization_code''), (''code'', query_param q ''code''),
        (''client_id'', JStr (clientId cfg)), (''client_secret'', JStr (clientSecret cfg))] # rest"
    by auto
  then show ?thesis
    using r by (cases res) (simp_all add: callback_match[OF assms])
qed

text \<open>
  A refused token exchange ends the handler after that one call, with the reply
  \<^verbatim>\<open>res.send(error.data)\<close>.
\<close>

lemma callback_exchange_refused:
  assumes "query_param q ''state'' = JStr (state srv)"
    and "axios (Post (memberfulURL cfg @ ''/oauth/token'')
           [(''grant_type'', JStr ''authorization_code''), (''code'', query_param q ''code''),
            (''client_id'', JStr (clientId cfg)), (''client_secret'', JStr (clientSecret cfg))])
         = Inl error"
  shows "fst (callback cfg axios q srv) =
           \<lparr> reply = Send (own_property error ''data''),
             calls = [Post (memberfulURL cfg @ ''/oauth/token'')
               [(''grant_type'', JStr ''authorization_code''), (''code'', query_param q ''code''),
                (''client_id'', JStr (clientId cfg)), (''client_secret'', JStr (clientSecret cfg))]] \<rparr>"
  using assms(2) by (simp add: callback_match[OF assms(1)] callback_try_def)

text \<open>
  A token response of \<^verbatim>\<open>null\<close> cannot be destructured, and an \<^verbatim>\<open>access_token\<close> that
  cannot be converted cannot be written into the header: the TypeError is caught like a
  refused call, after the one call that was made.
\<close>

lemma callback_null_payload:
  assumes "query_param q ''state'' = JStr (state srv)"
    and "axios (Post (memberfulURL cfg @ ''/oauth/token'')
           [(''grant_type'', JStr ''authorization_code''), (''code'', query_param q ''code''),
            (''client_id'', JStr (clientId cfg)), (''client_secret'', JStr (clientSecret cfg))])
         = Inr tokens"
    and "tokens = JNull \<or> tokens = JUndefined"
  shows "fst (callback cfg axios q srv) =
           \<lparr> reply = Send JUndefined,
             calls = [Post (memberfulURL cfg @ ''/oauth/token'')
               [(''grant_type'', JStr ''authorization_code''), (''code'', query_param q ''code''),
                (''client_id'', JStr (clientId cfg)), (''client_secret'', JStr (clientSecret cfg))]] \<rparr>"
  using assms(2,3) by (auto simp add: callback_match[OF assms(1)] callback_try_def)

lemma callback_unwritable_token:
  assumes "query_param q ''state'' = JStr (state srv)"
    and "axios (Post (memberfulURL cfg @ ''/oauth/token'')
           [(''grant_type'', JStr ''authorization_code''), (''code'', query_param q ''code''),
            (''client_id'', JStr (clientId cfg)), (''client_secret'', JStr (clientSecret cfg))])
         = Inr tokens"
    and "property tokens ''access_token'' = Some access_token"
    and "toString access_token = None"
  shows "fst (callback cfg axios q srv) =
           \<lparr> reply = Send JUndefined,
             calls = [Post (memberfulURL cfg @ ''/oauth/token'')
               [(''grant_type'', JStr ''authorization_code''), (''code'', query_param q ''code''),
                (''client_id'', JStr (clientId cfg)), (''client_secret'', JStr (clientSecret cfg))]] \<rparr>"
  using assms(2-4)
  by (simp add: callback_match[OF assms(1)] callback_try_def Let_def split: option.splits)

text \<open>
  A call that is refused later ends the handler in the same way: the reply is
  \<^verbatim>\<open>error.data\<close> of the refusal, and what the earlier calls returned is not shown.
\<close>

lemma callback_member_failure:
  assumes "query_param q ''state'' = JStr (state srv)"
    and "axios (Post (memberfulURL cfg @ ''/oauth/token'')
           [(''grant_type'', JStr ''authorization_code''), (''code'', query_param q ''code''),
            (''client_id'', JStr (clientId cfg)), (''client_secret'', JStr (clientSecret cfg))])
         = Inr tokens"
    and "property tokens ''access_token'' = Some access_token"
    and "property tokens ''refresh_token'' = Some refresh_token"
    and "toString access_token = Some bearer"
    and "axios (Get (memberfulURL cfg @ ''/api/graphql/member?query='' @ memberQuery)
           [(''Authorization'', ''Bearer '' @ bearer)])
         = Inl error"
  shows "reply (fst (callback cfg axios q srv)) = Send (own_property error ''data'')"
    and "length (calls (fst (callback cfg axios q srv))) = 2"
  using assms(2-6) by (simp_all add: callback_match[OF assms(1)] callback_try_def)

lemma callback_refresh_failure:
  assumes "query_param q ''state'' = JStr (state srv)"
    and "axios (Post (memberfulURL cfg @ ''/oauth/token'')
           [(''grant_type'', JStr ''authorization_code''), (''code'', query_param q ''code''),
            (''client_id'', JStr (clientId cfg)), (''client_secret'', JStr (clientSecret cfg))])
         = Inr tokens"
    and "property tokens ''access_token'' = Some access_token"
    and "property tokens ''refresh_token'' = Some refresh_token"
    and "toString access_token = Some bearer"
    and "axios (Get (memberfulURL cfg @ ''/api/graphql/member?query='' @ memberQuery)
           [(''Authorization'', ''Bearer '' @ bearer)])
         = Inr member"
    and "axios (Post (memberfulURL cfg @ ''/oauth/token'')
           [(''grant_type'', JStr ''refresh_token''), (''refresh_token'', refresh_token),
            (''client_id'', JStr (clientId cfg)), (''client_secret'', JStr (clientSecret cfg))])
         = Inl error"
  shows "reply (fst (callback cfg axios q srv)) = Send (own_property error ''data'')"
    and "length (calls (fst (callback cfg axios q srv))) = 3"
  using assms(2-7) by (simp_all add: callback_match[OF assms(1)] callback_try_def)

text \<open>The error of a refused call has no property \<^verbatim>\<open>data\<close> of its own.\<close>

lemma axios_error_data:
  "own_property (axios_error status body) ''data'' = JUndefined"
  and "own_property (axios_error status body) ''response''
         = JObj [(''status'', JNum (number_text status)), (''data'', body)]"
  by (simp_all add: axios_error_def own_property_def)

subsection \<open>Sequences of requests\<close>

text \<open>Only the sign-in route writes \<^verbatim>\<open>state\<close>: the stored token is the last one issued.\<close>

lemma serve_state:
  "state (serve cfg tr srv) =
     (if issued cfg tr srv = [] then state srv else last (issued cfg tr srv))"
proof (induction tr arbitrary: srv)
  case Nil
  then show ?case by simp
next
  case (Cons pr tr)
  show ?case
    by (cases "snd pr") (simp_all add: Cons.IH Let_def lobby_def callback_server)
qed

lemma serve_quiet:
  "BeginOAuthFlow \<notin> snd ` set tr \<Longrightarrow> issued cfg tr srv = []"
proof (induction tr arbitrary: srv)
  case Nil
  then show ?case by simp
next
  case (Cons pr tr)
  then show ?case by (cases "snd pr") (simp_all add: Let_def)
qed

section \<open>The claims\<close>

text \<open>
  C1. Let beginning a flow have stored the token \<open>t1\<close>, and let \<open>t2\<close> be another token.
  A callback request that presents \<^verbatim>\<open>state=t2\<close> is answered with the mismatch notice,
  and no outbound call is made: no token exchange, no profile fetch, no refresh.
\<close>

theorem callback_rejects_other_token:
  assumes "state (snd (beginOAuthFlow cfg srv)) = t1"
    and "t1 \<noteq> t2"
    and "q ''state'' = Some (JStr t2)"
  shows "fst (callback cfg axios q (snd (beginOAuthFlow cfg srv))) =
           \<lparr> reply = Send (JStr ''State doesn't match''), calls = [] \<rparr>"
  using assms by (intro callback_mismatch) (simp add: query_param_def)

theorem callback_rejects_other_token_witness:
  "fst (callback index_js (\<lambda>r. Inr JNull) [''code'' \<mapsto> JStr ''abc'', ''state'' \<mapsto> JStr ''AAAAAAAAAAAAAAAA'']
         (snd (beginOAuthFlow index_js (startup (sconst (1, 1)))))) =
     \<lparr> reply = Send (JStr ''State doesn't match''), calls = [] \<rparr>"
  using callback_rejects_other_token[of index_js "startup (sconst (1, 1))" "''ffffffffffffffff''"
      "''AAAAAAAAAAAAAAAA''" "[''code'' \<mapsto> JStr ''abc'', ''state'' \<mapsto> JStr ''AAAAAAAAAAAAAAAA'']"
      "\<lambda>r. Inr JNull"]
  by (simp add: beginOAuthFlow_def startup_def generateRandomString_def
      generateRandomString_loop.simps charAt_def possible_def
      times_count_def round53_def Math_floor_def)

text \<open>
  C2, as stated, fails. The request presents the token generated last and the provider
  answers every call, the token exchange with the payload \<^verbatim>\<open>null\<close>: destructuring
  throws, the token exchange is the only call, and the reply is \<^verbatim>\<open>res.send(undefined)\<close>.
  The same happens when the payload is
  \<^verbatim>\<open>{"access_token": {"toString": 1}, "refresh_token": "J5P7"}\<close>: the template literal
  of the Authorization header throws.
\<close>

theorem callback_success_counterexample:
  "calls (fst (callback index_js (\<lambda>r. Inr JNull)
       [''code'' \<mapsto> JStr ''abc'', ''state'' \<mapsto> JStr ''ffffffffffffffff'']
       (snd (beginOAuthFlow index_js (startup (sconst (1, 1))))))) =
     [Post ''INSERT_YOUR_MEMBERFUL_URL_HERE/oauth/token''
        [(''grant_type'', JStr ''authorization_code''), (''code'', JStr ''abc''),
         (''client_id'', JStr ''INSERT_YOUR_OAUTH_IDENTIFIER_HERE''),
         (''client_secret'', JStr ''INSERT_YOUR_OAUTH_SECRET_HERE'')]]
   \<and> reply (fst (callback index_js (\<lambda>r. Inr JNull)
       [''code'' \<mapsto> JStr ''abc'', ''state'' \<mapsto> JStr ''ffffffffffffffff'']
       (snd (beginOAuthFlow index_js (startup (sconst (1, 1))))))) = Send JUndefined
   \<and> length (calls (fst (callback index_js (\<lambda>r. Inr JNull)
       [''code'' \<mapsto> JStr ''abc'', ''state'' \<mapsto> JStr ''ffffffffffffffff'']
       (snd (beginOAuthFlow index_js (startup (sconst (1, 1)))))))) \<noteq> 3
   \<and> fst (callback index_js
       (\<lambda>r. Inr (JObj [(''access_token'', JObj [(''toString'', JNum ''1'')]),
                       (''refresh_token'', JStr ''J5P7'')]))
       [''code'' \<mapsto> JStr ''abc'', ''state'' \<mapsto> JStr ''ffffffffffffffff'']
       (snd (beginOAuthFlow index_js (startup (sconst (1, 1)))))) =
     \<lparr> reply = Send JUndefined,
       calls = [Post ''INSERT_YOUR_MEMBERFUL_URL_HERE/oauth/token''
        [(''grant_type'', JStr ''authorization_code''), (''code'', JStr ''abc''),
         (''client_id'', JStr ''INSERT_YOUR_OAUTH_IDENTIFIER_HERE''),
         (''client_secret'', JStr ''INSERT_YOUR_OAUTH_SECRET_HERE'')]] \<rparr>"
  by (simp add: callback_def callback_try_def query_param_def index_js_def own_property_def
      beginOAuthFlow_def startup_def generateRandomString_def
      generateRandomString_loop.simps charAt_def possible_def
      times_count_def round53_def Math_floor_def)

text \<open>
  C2, amended. A callback request presents the stored token, which is the one generated
  last. The token exchange answers with a payload whose \<^verbatim>\<open>access_token\<close> and
  \<^verbatim>\<open>refresh_token\<close> can be read (any payload but \<^verbatim>\<open>null\<close> and \<^verbatim>\<open>undefined\<close>) and
  whose \<^verbatim>\<open>access_token\<close> a template literal can convert to a string, and the two later
  calls succeed as well. Then exactly three calls are made, in this order: a POST to
  \<^verbatim>\<open>{provider}/oauth/token\<close> with grant type \<^verbatim>\<open>authorization_code\<close>; a GET to
  \<^verbatim>\<open>{provider}/api/graphql/member\<close> whose Authorization header is \<^verbatim>\<open>Bearer\<close>
  followed by the \<^verbatim>\<open>access_token\<close> of the first payload; a POST to
  \<^verbatim>\<open>{provider}/oauth/token\<close> with grant type \<^verbatim>\<open>refresh_token\<close> and the
  \<^verbatim>\<open>refresh_token\<close> of the first payload. The page that is sent contains the three
  payloads as \<^verbatim>\<open>JSON.stringify\<close> writes them, in the order of the calls.
\<close>

theorem callback_success:
  assumes "q ''state'' = Some (JStr (state srv))"
    and "axios (Post (memberfulURL cfg @ ''/oauth/token'')
           [(''grant_type'', JStr ''authorization_code''), (''code'', query_param q ''code''),
            (''client_id'', JStr (clientId cfg)), (''client_secret'', JStr (clientSecret cfg))])
         = Inr tokens"
    and "property tokens ''access_token'' = Some access_token"
    and "property tokens ''refresh_token'' = Some refresh_token"
    and "toString access_token = Some bearer"
    and "axios (Get (memberfulURL cfg @ ''/api/graphql/member?query='' @ memberQuery)
           [(''Authorization'', ''Bearer '' @ bearer)])
         = Inr member"
    and "axios (Post (memberfulURL cfg @ ''/oauth/token'')
           [(''grant_type'', JStr ''refresh_token''), (''refresh_token'', refresh_token),
            (''client_id'', JStr (clientId cfg)), (''client_secret'', JStr (clientSecret cfg))])
         = Inr refreshed"
  shows "calls (fst (callback cfg axios q srv)) =
           [Post (memberfulURL cfg @ ''/oauth/token'')
              [(''grant_type'', JStr ''authorization_code''), (''code'', query_param q ''code''),
               (''client_id'', JStr (clientId cfg)), (''client_secret'', JStr (clientSecret cfg))],
            Get (memberfulURL cfg @ ''/api/graphql/member?query='' @ memberQuery)
              [(''Authorization'', ''Bearer '' @ bearer)],
            Post (memberfulURL cfg @ ''/oauth/token'')
              [(''grant_type'', JStr ''refresh_token''), (''refresh_token'', refresh_token),
               (''client_id'', JStr (clientId cfg)), (''client_secret'', JStr (clientSecret cfg))]]
         \<and> reply (fst (callback cfg axios q srv)) = Send (JStr (results_page tokens member refreshed))
         \<and> (\<exists>a b c d. results_page tokens member refreshed =
               a @ JSON_stringify tokens @ b @ JSON_stringify member @ c
                 @ JSON_stringify refreshed @ d)"
proof -
  have m: "query_param q ''state'' = JStr (state srv)"
    using assms(1) by (simp add: query_param_def)
  have t: "callback_try cfg axios (query_param q ''code'') =
      (Inr (results_page tokens member refreshed),
       [Post (memberfulURL cfg @ ''/oauth/token'')
              [(''grant_type'', JStr ''authorization_code''), (''code'', query_param q ''code''),
               (''client_id'', JStr (clientId cfg)), (''client_secret'', JStr (clientSecret cfg))],
            Get (memberfulURL cfg @ ''/api/graphql/member?query='' @ memberQuery)
              [(''Authorization'', ''Bearer '' @ bearer)],
            Post (memberfulURL cfg @ ''/oauth/token'')
              [(''grant_type'', JStr ''refresh_token''), (''refresh_token'', refresh_token),
               (''client_id'', JStr (clientId cfg)), (''client_secret'', JStr (clientSecret cfg))]])"
    using assms(2-7) by (simp add: callback_try_def)
  have p: "\<exists>a b c d. results_page tokens member refreshed =
               a @ JSON_stringify tokens @ b @ JSON_stringify member @ c
                 @ JSON_stringify refreshed @ d"
  proof -
    have "results_page tokens member refreshed =
        (newline @ ''      <html><head></head><body>'' @ newline
           @ ''        <h2>Results from our access token request:</h2>'' @ newline
           @ ''        <pre>'')
        @ JSON_stringify tokens
        @ (''</pre>'' @ newline
           @ ''        <h2>Results from our member data request:</h2>'' @ newline
           @ ''        <pre>'')
        @ JSON_stringify member
        @ (''</pre>'' @ newline
           @ ''        <h2>Results from our refresh token request:</h2>'' @ newline
           @ ''        <pre>'')
        @ JSON_stringify refreshed
        @ (''</pre>'' @ newline @ ''      </body></html>'' @ newline @ ''      '')"
      by (simp add: results_page_def)
    then show ?thesis by blast
  qed
  from t p show ?thesis by (simp add: callback_match[OF m])
qed

theorem callback_success_witness:
  \<open>fst (callback index_js
      (\<lambda>r. case r of
          Post url body \<Rightarrow>
            (if map_of body ''grant_type'' = Some (JStr ''authorization_code'')
             then Inr (JObj [(''access_token'', JStr ''d4b3''), (''expires_in'', JNum ''899''),
                        (''refresh_token'', JStr ''J5P7''), (''token_type'', JStr ''bearer'')])
             else Inr (JObj [(''access_token'', JStr ''wMGR''), (''expires_in'', JNum ''899''),
                        (''refresh_token'', JStr ''AgKt''), (''token_type'', JStr ''bearer'')]))
        | Get url headers \<Rightarrow>
            Inr (JObj [(''currentMember'', JObj [(''id'', JStr ''2406643''),
                   (''subscriptions'', JArr [JObj [(''active'', JBool True),
                                                   (''expiresAt'', JNull)]])])]))
      [''code'' \<mapsto> JStr ''abc'', ''state'' \<mapsto> JStr []]
      (startup (sconst (0, 0)))) =
     \<lparr> reply = Send (JStr (join newline
        [[],
         ''      <html><head></head><body>'',
         ''        <h2>Results from our access token request:</h2>'',
         ''        <pre>{'',
         ''  "access_token": "d4b3",'',
         ''  "expires_in": 899,'',
         ''  "refresh_token": "J5P7",'',
         ''  "token_type": "bearer"'',
         ''}</pre>'',
         ''        <h2>Results from our member data request:</h2>'',
         ''        <pre>{'',
         ''  "currentMember": {'',
         ''    "id": "2406643",'',
         ''    "subscriptions": ['',
         ''      {'',
         ''        "active": true,'',
         ''        "expiresAt": null'',
         ''      }'',
         ''    ]'',
         ''  }'',
         ''}</pre>'',
         ''        <h2>Results from our refresh token request:</h2>'',
         ''        <pre>{'',
         ''  "access_token": "wMGR",'',
         ''  "expires_in": 899,'',
         ''  "refresh_token": "AgKt",'',
         ''  "token_type": "bearer"'',
         ''}</pre>'',
         ''      </body></html>'',
         ''      ''])),
       calls =
        [Post ''INSERT_YOUR_MEMBERFUL_URL_HERE/oauth/token''
           [(''grant_type'', JStr ''authorization_code''), (''code'', JStr ''abc''),
            (''client_id'', JStr ''INSERT_YOUR_OAUTH_IDENTIFIER_HERE''),
            (''client_secret'', JStr ''INSERT_YOUR_OAUTH_SECRET_HERE'')],
         Get (''INSERT_YOUR_MEMBERFUL_URL_HERE/api/graphql/member?query='' @ memberQuery)
           [(''Authorization'', ''Bearer d4b3'')],
         Post ''INSERT_YOUR_MEMBERFUL_URL_HERE/oauth/token''
           [(''grant_type'', JStr ''refresh_token''), (''refresh_token'', JStr ''J5P7''),
            (''client_id'', JStr ''INSERT_YOUR_OAUTH_IDENTIFIER_HERE''),
            (''client_secret'', JStr ''INSERT_YOUR_OAUTH_SECRET_HERE'')]] \<rparr>\<close>
proof -
  let ?tokens = "JObj [(''access_token'', JStr ''d4b3''), (''expires_in'', JNum ''899''),
                        (''refresh_token'', JStr ''J5P7''), (''token_type'', JStr ''bearer'')]"
  let ?refreshed = "JObj [(''access_token'', JStr ''wMGR''), (''expires_in'', JNum ''899''),
                        (''refresh_token'', JStr ''AgKt''), (''token_type'', JStr ''bearer'')]"
  let ?member = "JObj [(''currentMember'', JObj [(''id'', JStr ''2406643''),
                   (''subscriptions'', JArr [JObj [(''active'', JBool True),
                                                   (''expiresAt'', JNull)]])])]"
  let ?axios = "\<lambda>r. case r of
          Post url body \<Rightarrow>
            (if map_of body ''grant_type'' = Some (JStr ''authorization_code'')
             then Inr ?tokens else Inr ?refreshed)
        | Get url headers \<Rightarrow> Inr ?member"
  let ?q = "[''code'' \<mapsto> JStr ''abc'', ''state'' \<mapsto> JStr []]"
  let ?srv = "startup (sconst (0, 0))"
  have page: \<open>results_page ?tokens ?member ?refreshed = join newline
        [[],
         ''      <html><head></head><body>'',
         ''        <h2>Results from our access token request:</h2>'',
         ''        <pre>{'',
         ''  "access_token": "d4b3",'',
         ''  "expires_in": 899,'',
         ''  "refresh_token": "J5P7",'',
         ''  "token_type": "bearer"'',
         ''}</pre>'',
         ''        <h2>Results from our member data request:</h2>'',
         ''        <pre>{'',
         ''  "currentMember": {'',
         ''    "id": "2406643",'',
         ''    "subscriptions": ['',
         ''      {'',
         ''        "active": true,'',
         ''        "expiresAt": null'',
         ''      }'',
         ''    ]'',
         ''  }'',
         ''}</pre>'',
         ''        <h2>Results from our refresh token request:</h2>'',
         ''        <pre>{'',
         ''  "access_token": "wMGR",'',
         ''  "expires_in": 899,'',
         ''  "refresh_token": "AgKt",'',
         ''  "token_type": "bearer"'',
         ''}</pre>'',
         ''      </body></html>'',
         ''      '']\<close>
    by (simp add: results_page_def JSON_stringify_def quote_def quote_char_def newline_def)
  have "calls (fst (callback index_js ?axios ?q ?srv)) =
           [Post (memberfulURL index_js @ ''/oauth/token'')
              [(''grant_type'', JStr ''authorization_code''), (''code'', query_param ?q ''code''),
               (''client_id'', JStr (clientId index_js)),
               (''client_secret'', JStr (clientSecret index_js))],
            Get (memberfulURL index_js @ ''/api/graphql/member?query='' @ memberQuery)
              [(''Authorization'', ''Bearer '' @ ''d4b3'')],
            Post (memberfulURL index_js @ ''/oauth/token'')
              [(''grant_type'', JStr ''refresh_token''), (''refresh_token'', JStr ''J5P7''),
               (''client_id'', JStr (clientId index_js)),
               (''client_secret'', JStr (clientSecret index_js))]]
         \<and> reply (fst (callback index_js ?axios ?q ?srv))
             = Send (JStr (results_page ?tokens ?member ?refreshed))"
    using callback_success[of ?q ?srv ?axios index_js ?tokens "JStr ''d4b3''" "JStr ''J5P7''"
        "''d4b3''" ?member ?refreshed]
    by (simp add: index_js_def startup_def query_param_def own_property_def)
  then show ?thesis
    unfolding page
    by (cases "fst (callback index_js ?axios ?q ?srv)")
       (simp add: index_js_def query_param_def)
qed

text \<open>
  C3. Given draws that are doubles in \<open>[0, 1)\<close>, \<^verbatim>\<open>generateRandomString(N)\<close> returns
  exactly \<open>N\<close> characters, each from the alphabet of 62 letters and digits; for
  \<open>N = 0\<close> it returns the empty string.
\<close>

theorem generateRandomString_alphabet:
  assumes "unit_draws (stake N rnd)"
  shows "length (fst (generateRandomString N rnd)) = N
    \<and> set (fst (generateRandomString N rnd))
           \<subseteq> set ''ABCDEFGHIJKLMNOPQRSTUVWXYZabcdefghijklmnopqrstuvwxyz0123456789''
    \<and> fst (generateRandomString 0 rnd) = []"
  using picked_chars[OF assms]
  by (simp add: generateRandomString_def generateRandomString_loop_draws possible_def)

theorem generateRandomString_alphabet_witness:
  "unit_draws (stake 3 ((1162219258676257, 51) ## sconst (1, 1)))
   \<and> fst (generateRandomString 3 ((1162219258676257, 51) ## sconst (1, 1))) = ''gff''
   \<and> length (fst (generateRandomString 3 ((1162219258676257, 51) ## sconst (1, 1)))) = 3"
proof -
  have h: "unit_draws (stake 3 ((1162219258676257, 51) ## sconst (1, 1)))"
    by (simp add: numeral_3_eq_3 unit_draws_def unit_double_def)
  from generateRandomString_alphabet[OF h] h show ?thesis
    by (simp add: times_count_def round53_def bits.simps Let_def Math_floor_def
        generateRandomString_def generateRandomString_loop.simps charAt_def possible_def)
qed

text \<open>
  C4. The claim is that a refused token exchange leaves an error indication in the
  response and stops the handler before the profile fetch and the refresh. The handler
  does stop after the one call; but its reply is \<^verbatim>\<open>res.send(error.data)\<close>, and the
  error of axios has no property \<^verbatim>\<open>data\<close>: the sign-in route has issued a token, the
  callback presents it, the provider refuses the token exchange with status 401, and
  the reply is \<^verbatim>\<open>res.send(undefined)\<close>, which says nothing of an error.
\<close>

theorem callback_refusal_no_indication:
  "fst (callback sibling_js
         (\<lambda>r. Inl (axios_error 401 (JObj [(''error'', JStr ''invalid_grant'')])))
         [''code'' \<mapsto> JStr ''abc'', ''state'' \<mapsto> JStr ''ffffffffffffffff'']
         (snd (beginOAuthFlow sibling_js (startup (sconst (1, 1)))))) =
     \<lparr> reply = Send JUndefined,
       calls = [Post ''INSERT_YOUR_MEMBERFUL_URL_HERE/oauth/token''
         [(''grant_type'', JStr ''authorization_code''), (''code'', JStr ''abc''),
          (''client_id'', JStr ''INSERT_YOUR_OAUTH_IDENTIFIER_HERE''),
          (''client_secret'', JStr ''INSERT_YOUR_OAUTH_SECRET_HERE'')]] \<rparr>"
  by (simp add: callback_def callback_try_def query_param_def sibling_js_def index_js_def
      own_property_def axios_error_def
      beginOAuthFlow_def startup_def generateRandomString_def
      generateRandomString_loop.simps charAt_def possible_def
      times_count_def round53_def Math_floor_def)

text \<open>
  C5. The claim is that the payload of a failed call reaches the caller verbatim. The
  handler sends \<^verbatim>\<open>error.data\<close>, but the error of axios keeps the provider's body under
  \<^verbatim>\<open>response.data\<close> and has no property \<^verbatim>\<open>data\<close>: when the provider refuses the
  token exchange with status 401 and the body \<^verbatim>\<open>{"error": "invalid_client"}\<close>, the
  handler replies with \<^verbatim>\<open>res.send(undefined)\<close> and the body is lost.
\<close>

theorem callback_error_payload_dropped:
  "own_property (axios_error 401 (JObj [(''error'', JStr ''invalid_client'')])) ''response''
     = JObj [(''status'', JNum ''401''), (''data'', JObj [(''error'', JStr ''invalid_client'')])]
   \<and> reply (fst (callback index_js
         (\<lambda>r. Inl (axios_error 401 (JObj [(''error'', JStr ''invalid_client'')])))
         [''code'' \<mapsto> JStr ''abc'', ''state'' \<mapsto> JStr []] (startup (sconst (0, 0)))))
       = Send JUndefined"
  by (simp add: callback_def callback_try_def index_js_def startup_def query_param_def
      own_property_def axios_error_def number_text_def digits.simps)



text \<open>
  C7. The lobby route sends the same page whatever the state of the server, and leaves
  that state, the stored token included, as it was.
\<close>

theorem lobby_idempotent:
  "fst (lobby cfg srv1) = fst (lobby cfg srv2)
   \<and> reply (fst (lobby cfg srv1)) = Send (JStr (lobby_page cfg))
   \<and> calls (fst (lobby cfg srv1)) = []
   \<and> snd (lobby cfg srv1) = srv1"
  by (simp add: lobby_def)

text \<open>
  C8. After any sequence of requests in which the tokens issued are pairwise distinct,
  the stored token is the one issued last, and a callback request that presents a token
  issued earlier is answered with the mismatch notice.
\<close>

theorem stale_token_rejected:
  assumes "distinct (issued cfg tr srv)"
    and "t \<in> set (butlast (issued cfg tr srv))"
    and "q ''state'' = Some (JStr t)"
  shows "state (serve cfg tr srv) = last (issued cfg tr srv)
    \<and> fst (callback cfg axios q (serve cfg tr srv)) =
           \<lparr> reply = Send (JStr ''State doesn't match''), calls = [] \<rparr>"
proof -
  let ?ts = "issued cfg tr srv"
  from assms(2) have ne: "?ts \<noteq> []" by auto
  then have "distinct (butlast ?ts @ [last ?ts])" using assms(1) by simp
  then have "last ?ts \<notin> set (butlast ?ts)" by simp
  with assms(2) have neq: "t \<noteq> last ?ts" by blast
  have st: "state (serve cfg tr srv) = last ?ts" using ne by (simp add: serve_state)
  have "query_param q ''state'' \<noteq> JStr (state (serve cfg tr srv))"
    using assms(3) neq st by (simp add: query_param_def)
  from callback_mismatch[OF this] st show ?thesis by simp
qed

theorem stale_token_rejected_witness:
  "issued index_js [(\<lambda>r. Inr JNull, BeginOAuthFlow), (\<lambda>r. Inr JNull, Lobby),
                    (\<lambda>r. Inr JNull, BeginOAuthFlow)] (startup ((2, 2) ## sconst (0, 0)))
     = [''fAAAAAAAAAAAAAAA'', ''AAAAAAAAAAAAAAAA'']
   \<and> fst (callback index_js (\<lambda>r. Inr JNull) [''code'' \<mapsto> JStr ''abc'', ''state'' \<mapsto> JStr ''fAAAAAAAAAAAAAAA'']
        (serve index_js [(\<lambda>r. Inr JNull, BeginOAuthFlow), (\<lambda>r. Inr JNull, Lobby),
                    (\<lambda>r. Inr JNull, BeginOAuthFlow)] (startup ((2, 2) ## sconst (0, 0))))) =
           \<lparr> reply = Send (JStr ''State doesn't match''), calls = [] \<rparr>"
proof -
  have b1: "snd (beginOAuthFlow index_js (startup ((2, 2) ## sconst (0, 0))))
      = \<lparr> state = ''fAAAAAAAAAAAAAAA'', math_random = sconst (0, 0) \<rparr>"
    by (simp add: beginOAuthFlow_def startup_def generateRandomString_def
        generateRandomString_loop.simps charAt_def possible_def
        times_count_def round53_def Math_floor_def)
  have b2: "snd (beginOAuthFlow index_js \<lparr> state = ''fAAAAAAAAAAAAAAA'', math_random = sconst (0, 0) \<rparr>)
      = \<lparr> state = ''AAAAAAAAAAAAAAAA'', math_random = sconst (0, 0) \<rparr>"
    by (simp add: beginOAuthFlow_def generateRandomString_def
        generateRandomString_loop.simps charAt_def possible_def
        times_count_def round53_def Math_floor_def)
  have i: "issued index_js [(\<lambda>r. Inr JNull, BeginOAuthFlow), (\<lambda>r. Inr JNull, Lobby),
                    (\<lambda>r. Inr JNull, BeginOAuthFlow)] (startup ((2, 2) ## sconst (0, 0)))
     = [''fAAAAAAAAAAAAAAA'', ''AAAAAAAAAAAAAAAA'']"
    by (simp add: b1 b2 lobby_def Let_def)
  have d: "distinct (issued index_js [(\<lambda>r. Inr JNull, BeginOAuthFlow), (\<lambda>r. Inr JNull, Lobby),
                    (\<lambda>r. Inr JNull, BeginOAuthFlow)] (startup ((2, 2) ## sconst (0, 0))))"
    by (simp only: i) simp
  have m: "''fAAAAAAAAAAAAAAA'' \<in> set (butlast (issued index_js [(\<lambda>r. Inr JNull, BeginOAuthFlow),
                    (\<lambda>r. Inr JNull, Lobby), (\<lambda>r. Inr JNull, BeginOAuthFlow)]
                    (startup ((2, 2) ## sconst (0, 0)))))"
    by (simp only: i) simp
  have s: "[''code'' \<mapsto> JStr ''abc'', ''state'' \<mapsto> JStr ''fAAAAAAAAAAAAAAA''] ''state''
             = Some (JStr ''fAAAAAAAAAAAAAAA'')"
    by simp
  from stale_token_rejected[of index_js "[(\<lambda>r. Inr JNull, BeginOAuthFlow),
      (\<lambda>r. Inr JNull, Lobby), (\<lambda>r. Inr JNull, BeginOAuthFlow)]" "startup ((2, 2) ## sconst (0, 0))"
      "''fAAAAAAAAAAAAAAA''" "[''code'' \<mapsto> JStr ''abc'', ''state'' \<mapsto> JStr ''fAAAAAAAAAAAAAAA'']"
      "\<lambda>r. Inr JNull", OF d m s] i
  show ?thesis by blast
qed

text \<open>
  C9. Handling a callback request leaves the server as it was, whether the request is
  rejected, fails or succeeds; so a second callback request with the same matching
  \<^verbatim>\<open>state\<close> passes the check again and starts the token exchange, whatever the
  provider did the first time.
\<close>

theorem callback_keeps_state:
  "snd (callback cfg axios q srv) = srv
   \<and> (q ''state'' = Some (JStr (state srv)) \<longrightarrow>
        (\<exists>rest. calls (fst (callback cfg axios' q (snd (callback cfg axios q srv)))) =
           Post (memberfulURL cfg @ ''/oauth/token'')
             [(''grant_type'', JStr ''authorization_code''), (''code'', query_param q ''code''),
              (''client_id'', JStr (clientId cfg)), (''client_secret'', JStr (clientSecret cfg))]
           # rest))"
proof (intro conjI impI)
  show "snd (callback cfg axios q srv) = srv" by (rule callback_server)
next
  assume "q ''state'' = Some (JStr (state srv))"
  then have "query_param q ''state'' = JStr (state srv)" by (simp add: query_param_def)
  from callback_begins[OF this, of cfg axios'] 
  show "\<exists>rest. calls (fst (callback cfg axios' q (snd (callback cfg axios q srv)))) =
           Post (memberfulURL cfg @ ''/oauth/token'')
             [(''grant_type'', JStr ''authorization_code''), (''code'', query_param q ''code''),
              (''client_id'', JStr (clientId cfg)), (''client_secret'', JStr (clientSecret cfg))]
           # rest"
    by (simp add: callback_server)
qed

theorem callback_keeps_state_witness:
  "snd (callback index_js (\<lambda>r. Inr JNull) [''code'' \<mapsto> JStr ''abc'', ''state'' \<mapsto> JStr ''tok'']
      \<lparr> state = ''tok'', math_random = sconst (0, 0) \<rparr>) = \<lparr> state = ''tok'', math_random = sconst (0, 0) \<rparr>
   \<and> (\<exists>rest. calls (fst (callback index_js (\<lambda>r. Inl []) [''code'' \<mapsto> JStr ''abc'', ''state'' \<mapsto> JStr ''tok'']
        (snd (callback index_js (\<lambda>r. Inr JNull) [''code'' \<mapsto> JStr ''abc'', ''state'' \<mapsto> JStr ''tok'']
      \<lparr> state = ''tok'', math_random = sconst (0, 0) \<rparr>)))) =
      Post ''INSERT_YOUR_MEMBERFUL_URL_HERE/oauth/token''
        [(''grant_type'', JStr ''authorization_code''), (''code'', JStr ''abc''),
         (''client_id'', JStr ''INSERT_YOUR_OAUTH_IDENTIFIER_HERE''),
         (''client_secret'', JStr ''INSERT_YOUR_OAUTH_SECRET_HERE'')] # rest)"
  using callback_keeps_state[of index_js "\<lambda>r. Inr JNull"
      "[''code'' \<mapsto> JStr ''abc'', ''state'' \<mapsto> JStr ''tok'']"
      "\<lparr> state = ''tok'', math_random = sconst (0, 0) \<rparr>" "\<lambda>r. Inl []"]
  by (simp add: index_js_def query_param_def callback_def callback_try_def)

text \<open>
  C10. The server starts with the empty string as stored token, and it stays so until
  the flow is begun for the first time. Until then a callback request whose \<^verbatim>\<open>state\<close>
  is the empty string passes the check and proceeds to the token exchange, and one
  without a \<^verbatim>\<open>state\<close> parameter is answered with the mismatch notice.
\<close>

theorem startup_empty_state:
  assumes "BeginOAuthFlow \<notin> snd ` set tr"
    and "q ''state'' = Some (JStr [])"
    and "q' ''state'' = None"
  shows "state (startup rnd) = [] \<and> state (serve cfg tr (startup rnd)) = []
    \<and> (\<exists>rest. calls (fst (callback cfg axios q (serve cfg tr (startup rnd)))) =
           Post (memberfulURL cfg @ ''/oauth/token'')
             [(''grant_type'', JStr ''authorization_code''), (''code'', query_param q ''code''),
              (''client_id'', JStr (clientId cfg)), (''client_secret'', JStr (clientSecret cfg))]
           # rest)
    \<and> fst (callback cfg axios q' (serve cfg tr (startup rnd))) =
           \<lparr> reply = Send (JStr ''State doesn't match''), calls = [] \<rparr>"
proof -
  have st: "state (serve cfg tr (startup rnd)) = []"
    using serve_quiet[OF assms(1)] by (simp add: serve_state startup_def)
  have a: "query_param q ''state'' = JStr (state (serve cfg tr (startup rnd)))"
    using assms(2) st by (simp add: query_param_def)
  have b: "query_param q' ''state'' \<noteq> JStr (state (serve cfg tr (startup rnd)))"
    using assms(3) by (simp add: query_param_def)
  from st callback_begins[OF a] callback_mismatch[OF b] show ?thesis
    by (simp add: startup_def)
qed

theorem startup_empty_state_witness:
  "calls (fst (callback index_js (\<lambda>r. Inl []) [''code'' \<mapsto> JStr ''x'', ''state'' \<mapsto> JStr []]
       (serve index_js [(\<lambda>r. Inr JNull, Lobby)] (startup (sconst (0, 0)))))) =
      [Post ''INSERT_YOUR_MEMBERFUL_URL_HERE/oauth/token''
        [(''grant_type'', JStr ''authorization_code''), (''code'', JStr ''x''),
         (''client_id'', JStr ''INSERT_YOUR_OAUTH_IDENTIFIER_HERE''),
         (''client_secret'', JStr ''INSERT_YOUR_OAUTH_SECRET_HERE'')]]
   \<and> fst (callback index_js (\<lambda>r. Inl []) [''code'' \<mapsto> JStr ''x'']
       (serve index_js [(\<lambda>r. Inr JNull, Lobby)] (startup (sconst (0, 0))))) =
           \<lparr> reply = Send (JStr ''State doesn't match''), calls = [] \<rparr>"
  using startup_empty_state[of "[(\<lambda>r. Inr JNull, Lobby)]" "[''code'' \<mapsto> JStr ''x'', ''state'' \<mapsto> JStr []]"
      "[''code'' \<mapsto> JStr ''x'']" "sconst (0, 0)" index_js "\<lambda>r. Inl []"]
  by (simp add: index_js_def query_param_def callback_def callback_try_def lobby_def startup_def)

end
